theory Spec2Isabelle
  imports Main
begin

section \<open>The admin console of \<open>src/front/app/page.tsx\<close>\<close>

text \<open>
  The component \<open>Home\<close> holds its state in React \<open>useState\<close> cells and changes it
  from event handlers. Every handler that talks to the backend is an \<open>async\<close> function:
  it runs up to its first \<open>await\<close>, is suspended there, and is resumed when the promise
  settles. The embedding keeps that shape:
  \<^item> the \<open>useState\<close> cells are the record \<open>view\<close>;
  \<^item> a handler is a pair of functions, the synchronous prefix (named as in the source)
    and the continuation after the \<open>await\<close> (suffix \<open>_resume\<close>), which receives what the
    backend answered;
  \<^item> a handler is a closure of one render: it reads \<open>userId\<close>, \<open>username\<close>, ... from the
    render in which it was created. The prefix and the continuation therefore take that
    render's \<open>view\<close> as the argument \<open>env\<close>, next to the current system state;
  \<^item> a rejected promise is a value \<open>Inl e\<close>, \<open>try\<close>/\<open>catch\<close> is \<open>try_catch\<close>;
  \<^item> \<open>setTimeout\<close> is a list of pending deadlines and a clock in milliseconds.
\<close>

subsection \<open>Data\<close>

text \<open>The types \<open>Genre\<close>, \<open>UserProfile\<close> and \<open>Wallet\<close> (lines 7 to 23).\<close>

record Genre =
  g_id :: string
  g_name :: string
  g_listeners :: int

record UserProfile =
  u_id :: string
  u_username :: string
  u_email :: string
  u_subscription_level :: int

record Wallet =
  coin_balance :: int
  credit_balance :: int

text \<open>The \<open>useState\<close> cells of \<open>Home\<close> (lines 26 to 44).\<close>

record view =
  activeTab :: string
  genres :: "Genre list"
  profile :: "UserProfile option"
  wallet :: "Wallet option"
  message :: string
  genreId :: string
  genreName :: string
  genreListeners :: string
  userId :: string
  username :: string
  email :: string
  subLevel :: string
  transferAmount :: string

text \<open>
  What \<open>parseInt\<close> returns: a double that is an integer (\<open>Num\<close>, holding its exact
  value), an infinity, or \<open>NaN\<close>. \<open>JSON.stringify\<close> writes \<open>NaN\<close> and the infinities
  as \<open>null\<close>. The negative zero that \<open>parseInt\<close> returns for \<open>-0\<close> is \<open>Num 0\<close>:
  \<open>JSON.stringify\<close> writes both zeros as \<open>0\<close>.
\<close>

datatype jsnum = NaN | Num int | PosInfinity | NegInfinity

text \<open>The bodies built by \<open>JSON.stringify\<close> for the two kinds of create request.\<close>

record genre_payload =
  gp_id :: string
  gp_name :: string
  gp_listeners :: jsnum

record user_payload =
  up_id :: string
  up_username :: string
  up_email :: string
  up_subscription_level :: jsnum

text \<open>
  The HTTP requests the component issues, by method and path under \<open>API_BASE\<close>; the
  string of a \<open>users\<close> request is the identifier interpolated into the URL.
\<close>

datatype request =
    GET_genres
  | POST_genres genre_payload
  | GET_user string
  | POST_users user_payload
  | PUT_user string user_payload
  | GET_wallet string
  | POST_transfer string jsnum

text \<open>
  What the backend answers to one request: the promise of \<open>fetch\<close> rejects
  (\<open>NetworkFailure\<close>), or it resolves to a response, of any status, whose \<open>json()\<close>
  either rejects (\<open>Reply None\<close>) or yields a value of the type the state cell is
  declared with.
\<close>

datatype 'a reply = NetworkFailure | Reply "'a option"

datatype exn = FetchRejected | JsonRejected

text \<open>The suspended handlers: which continuation waits for the answer.\<close>

datatype kont =
    K_fetchGenres
  | K_createGenre
  | K_fetchProfile
  | K_createUser
  | K_updateUser
  | K_fetchWallet
  | K_transferCredits

text \<open>
  The whole system: the rendered state, the clock, the deadlines of the pending
  \<open>setTimeout\<close> callbacks (each callback is \<open>() => setMessage("")\<close>, so only the
  deadline tells them apart), the log of requests issued so far, the suspended
  handlers, each with the render it closes over, and the exceptions that left a
  handler uncaught.
\<close>

record sys =
  view :: view
  now :: nat
  timers :: "nat list"
  requests :: "request list"
  inflight :: "(kont \<times> view) list"
  unhandled :: "exn list"

definition init_view :: view where
  "init_view = \<lparr>activeTab = ''genres'', genres = [], profile = None, wallet = None,
     message = '''', genreId = '''', genreName = '''', genreListeners = '''',
     userId = ''user:1234'', username = '''', email = '''', subLevel = ''0'',
     transferAmount = ''''\<rparr>"

definition init :: sys where
  "init = \<lparr>view = init_view, now = 0, timers = [], requests = [], inflight = [],
     unhandled = []\<rparr>"

subsection \<open>The state setters\<close>

definition setActiveTab :: "string \<Rightarrow> sys \<Rightarrow> sys" where
  "setActiveTab v s = s\<lparr>view := (view s)\<lparr>activeTab := v\<rparr>\<rparr>"

definition setGenres :: "Genre list \<Rightarrow> sys \<Rightarrow> sys" where
  "setGenres v s = s\<lparr>view := (view s)\<lparr>genres := v\<rparr>\<rparr>"

definition setProfile :: "UserProfile \<Rightarrow> sys \<Rightarrow> sys" where
  "setProfile v s = s\<lparr>view := (view s)\<lparr>profile := Some v\<rparr>\<rparr>"

definition setWallet :: "Wallet \<Rightarrow> sys \<Rightarrow> sys" where
  "setWallet v s = s\<lparr>view := (view s)\<lparr>wallet := Some v\<rparr>\<rparr>"

definition setMessage :: "string \<Rightarrow> sys \<Rightarrow> sys" where
  "setMessage v s = s\<lparr>view := (view s)\<lparr>message := v\<rparr>\<rparr>"

definition setGenreId :: "string \<Rightarrow> sys \<Rightarrow> sys" where
  "setGenreId v s = s\<lparr>view := (view s)\<lparr>genreId := v\<rparr>\<rparr>"

definition setGenreName :: "string \<Rightarrow> sys \<Rightarrow> sys" where
  "setGenreName v s = s\<lparr>view := (view s)\<lparr>genreName := v\<rparr>\<rparr>"

definition setGenreListeners :: "string \<Rightarrow> sys \<Rightarrow> sys" where
  "setGenreListeners v s = s\<lparr>view := (view s)\<lparr>genreListeners := v\<rparr>\<rparr>"

definition setUserId :: "string \<Rightarrow> sys \<Rightarrow> sys" where
  "setUserId v s = s\<lparr>view := (view s)\<lparr>userId := v\<rparr>\<rparr>"

definition setUsername :: "string \<Rightarrow> sys \<Rightarrow> sys" where
  "setUsername v s = s\<lparr>view := (view s)\<lparr>username := v\<rparr>\<rparr>"

definition setEmail :: "string \<Rightarrow> sys \<Rightarrow> sys" where
  "setEmail v s = s\<lparr>view := (view s)\<lparr>email := v\<rparr>\<rparr>"

definition setSubLevel :: "string \<Rightarrow> sys \<Rightarrow> sys" where
  "setSubLevel v s = s\<lparr>view := (view s)\<lparr>subLevel := v\<rparr>\<rparr>"

definition setTransferAmount :: "string \<Rightarrow> sys \<Rightarrow> sys" where
  "setTransferAmount v s = s\<lparr>view := (view s)\<lparr>transferAmount := v\<rparr>\<rparr>"

subsection \<open>The built-in \<open>parseInt\<close>, with no radix argument\<close>

text \<open>
  After ECMAScript \<open>parseInt(string)\<close>: leading white space and line terminators are
  skipped, one sign is read, a prefix \<open>0x\<close> or \<open>0X\<close> selects radix 16 (otherwise 10),
  and the longest prefix of digits of that radix is the mathematical value; with no
  digit the result is \<open>NaN\<close>. The result is the double nearest to the signed value.

  A \<open>char\<close> stands for a UTF-16 code unit below 256. Of the code units that ECMAScript
  skips (\<open>WhiteSpace\<close> and \<open>LineTerminator\<close>) these are TAB, LF, VT, FF, CR, SP and
  NBSP (\<open>0xA0\<close>). The three texts that reach \<open>parseInt\<close> come from two inputs of type
  \<open>number\<close> and from a \<open>select\<close> with the options \<open>0\<close>, \<open>1\<close>, \<open>2\<close>, whose values hold
  ASCII only.
\<close>

definition isWhiteSpace :: "char \<Rightarrow> bool" where
  "isWhiteSpace c =
     (c \<in> set [CHR 0x09, CHR 0x0A, CHR 0x0B, CHR 0x0C, CHR 0x0D, CHR 0x20, CHR 0xA0])"

definition digitValue :: "char \<Rightarrow> nat option" where
  "digitValue c =
     (let n = (of_char c :: nat) in
      if 48 \<le> n \<and> n \<le> 57 then Some (n - 48)
      else if 97 \<le> n \<and> n \<le> 122 then Some (n - 87)
      else if 65 \<le> n \<and> n \<le> 90 then Some (n - 55)
      else None)"

fun digitsPrefix :: "nat \<Rightarrow> string \<Rightarrow> nat list" where
  "digitsPrefix R [] = []"
| "digitsPrefix R (c # cs) =
     (case digitValue c of
        None \<Rightarrow> []
      | Some d \<Rightarrow> if d < R then d # digitsPrefix R cs else [])"

definition radixValue :: "nat \<Rightarrow> nat list \<Rightarrow> nat" where
  "radixValue R ds = foldl (\<lambda>acc d. acc * R + d) 0 ds"

text \<open>
  The conversion of a natural number to a double, round to nearest, ties to even. A
  double has 53 significant bits: a number below \<open>2 ^ 53\<close> is a double; a longer one
  loses its low \<open>e\<close> bits, and the 53 bits kept go up by one when the bits lost are
  more than half a unit, or exactly half with the kept part odd. A result of
  \<open>2 ^ 1024\<close> or more is beyond the largest double and becomes infinity (\<open>None\<close>).
  For radix 10 ECMAScript lets an implementation replace the digits after the 20th by
  zeros; the model, as the engines in use, converts the digits as they are.
\<close>

fun bitLength :: "nat \<Rightarrow> nat" where
  "bitLength n = (if n = 0 then 0 else Suc (bitLength (n div 2)))"

declare bitLength.simps [simp del]

definition toDouble :: "nat \<Rightarrow> nat option" where
  "toDouble n =
     (if n < 2 ^ 53 then Some n
      else
        (let e = bitLength n - 53;
             q = n div 2 ^ e;
             r = n mod 2 ^ e;
             h = 2 ^ (e - 1);
             q' = (if h < r \<or> (r = h \<and> odd q) then q + 1 else q);
             v = q' * 2 ^ e
         in if 2 ^ 1024 \<le> v then None else Some v))"

definition parseInt :: "string \<Rightarrow> jsnum" where
  "parseInt str =
     (let S = dropWhile isWhiteSpace str;
          sign = (if take 1 S = ''-'' then - 1 else 1 :: int);
          S1 = (if take 1 S = ''+'' \<or> take 1 S = ''-'' then drop 1 S else S);
          hex = (take 2 S1 = ''0x'' \<or> take 2 S1 = ''0X'');
          R = (if hex then 16 else 10);
          S2 = (if hex then drop 2 S1 else S1);
          Z = digitsPrefix R S2
      in if Z = [] then NaN
         else
           (case toDouble (radixValue R Z) of
              None \<Rightarrow> if sign < 0 then NegInfinity else PosInfinity
            | Some v \<Rightarrow> Num (sign * int v)))"

subsection \<open>Promises and \<open>try\<close>/\<open>catch\<close>\<close>

definition await_fetch :: "'a reply \<Rightarrow> exn + 'a option" where
  "await_fetch r = (case r of NetworkFailure \<Rightarrow> Inl FetchRejected | Reply res \<Rightarrow> Inr res)"

definition await_json :: "'a option \<Rightarrow> exn + 'a" where
  "await_json res = (case res of None \<Rightarrow> Inl JsonRejected | Some data \<Rightarrow> Inr data)"

definition bind_exn :: "exn + 'a \<Rightarrow> ('a \<Rightarrow> exn + 'b) \<Rightarrow> exn + 'b" where
  "bind_exn m f = (case m of Inl e \<Rightarrow> Inl e | Inr v \<Rightarrow> f v)"

definition try_catch :: "exn + 'a \<Rightarrow> (exn \<Rightarrow> exn + 'a) \<Rightarrow> exn + 'a" where
  "try_catch body handler = (case body of Inl e \<Rightarrow> handler e | Inr v \<Rightarrow> Inr v)"

text \<open>
  \<open>fetch req k env s\<close>: the request goes out, and the calling handler, with the render
  \<open>env\<close> it closes over, is suspended at its \<open>await\<close> as continuation \<open>k\<close>.
\<close>

definition fetch :: "request \<Rightarrow> kont \<Rightarrow> view \<Rightarrow> sys \<Rightarrow> sys" where
  "fetch req k env s =
     s\<lparr>requests := requests s @ [req], inflight := inflight s @ [(k, env)]\<rparr>"

subsection \<open>The notification (lines 46 to 49)\<close>

text \<open>
  \<open>showMessage\<close> sets the message and registers one more timeout, 3000 ms from now.
  The handle that \<open>setTimeout\<close> returns is dropped, and the source never calls
  \<open>clearTimeout\<close>: the timeouts registered before stay pending.
\<close>

definition showMessage :: "string \<Rightarrow> sys \<Rightarrow> sys" where
  "showMessage msg s = (setMessage msg s)\<lparr>timers := timers s @ [now s + 3000]\<rparr>"

text \<open>
  \<open>tick dt\<close>: \<open>dt\<close> milliseconds pass with no other event. Every timeout whose deadline
  is reached runs its callback \<open>setMessage("")\<close> and is gone.
\<close>

definition tick :: "nat \<Rightarrow> sys \<Rightarrow> sys" where
  "tick dt s =
     (let t = now s + dt;
          s' = (if filter (\<lambda>d. d \<le> t) (timers s) = [] then s else setMessage '''' s)
      in s'\<lparr>now := t, timers := filter (\<lambda>d. t < d) (timers s)\<rparr>)"

subsection \<open>Genres (lines 51 to 82)\<close>

definition fetchGenres :: "view \<Rightarrow> sys \<Rightarrow> sys" where
  "fetchGenres env s = fetch GET_genres K_fetchGenres env s"

definition fetchGenres_resume :: "Genre list reply \<Rightarrow> sys \<Rightarrow> exn + sys" where
  "fetchGenres_resume r s =
     try_catch
       (bind_exn (await_fetch r) (\<lambda>res.
        bind_exn (await_json res) (\<lambda>data.
        Inr (showMessage ''Genres loaded!'' (setGenres data s)))))
       (\<lambda>err. Inr (showMessage ''Error loading genres'' s))"

definition createGenre :: "view \<Rightarrow> sys \<Rightarrow> sys" where
  "createGenre env s =
     fetch (POST_genres \<lparr>gp_id = genreId env, gp_name = genreName env,
                         gp_listeners = parseInt (genreListeners env)\<rparr>)
       K_createGenre env s"

definition createGenre_resume :: "view \<Rightarrow> unit reply \<Rightarrow> sys \<Rightarrow> exn + sys" where
  "createGenre_resume env r s =
     try_catch
       (bind_exn (await_fetch r) (\<lambda>_.
        Inr (fetchGenres env
              (setGenreListeners ''''
                (setGenreName ''''
                  (setGenreId ''''
                    (showMessage ''Genre created!'' s)))))))
       (\<lambda>err. Inr (showMessage ''Error creating genre'' s))"

subsection \<open>Users (lines 84 to 133)\<close>

definition fetchProfile :: "view \<Rightarrow> sys \<Rightarrow> sys" where
  "fetchProfile env s = fetch (GET_user (userId env)) K_fetchProfile env s"

definition fetchProfile_resume :: "UserProfile reply \<Rightarrow> sys \<Rightarrow> exn + sys" where
  "fetchProfile_resume r s =
     try_catch
       (bind_exn (await_fetch r) (\<lambda>res.
        bind_exn (await_json res) (\<lambda>data.
        Inr (showMessage ''Profile loaded!'' (setProfile data s)))))
       (\<lambda>err. Inr (showMessage ''Error loading profile'' s))"

definition user_body :: "view \<Rightarrow> user_payload" where
  "user_body env = \<lparr>up_id = userId env, up_username = username env, up_email = email env,
                     up_subscription_level = parseInt (subLevel env)\<rparr>"

definition createUser :: "view \<Rightarrow> sys \<Rightarrow> sys" where
  "createUser env s = fetch (POST_users (user_body env)) K_createUser env s"

definition createUser_resume :: "view \<Rightarrow> unit reply \<Rightarrow> sys \<Rightarrow> exn + sys" where
  "createUser_resume env r s =
     try_catch
       (bind_exn (await_fetch r) (\<lambda>_.
        Inr (fetchProfile env (showMessage ''User created!'' s))))
       (\<lambda>err. Inr (showMessage ''Error creating user'' s))"

definition updateUser :: "view \<Rightarrow> sys \<Rightarrow> sys" where
  "updateUser env s = fetch (PUT_user (userId env) (user_body env)) K_updateUser env s"

definition updateUser_resume :: "view \<Rightarrow> unit reply \<Rightarrow> sys \<Rightarrow> exn + sys" where
  "updateUser_resume env r s =
     try_catch
       (bind_exn (await_fetch r) (\<lambda>_.
        Inr (fetchProfile env (showMessage ''User updated!'' s))))
       (\<lambda>err. Inr (showMessage ''Error updating user'' s))"

subsection \<open>Wallet (lines 135 to 160)\<close>

definition fetchWallet :: "view \<Rightarrow> sys \<Rightarrow> sys" where
  "fetchWallet env s = fetch (GET_wallet (userId env)) K_fetchWallet env s"

definition fetchWallet_resume :: "Wallet reply \<Rightarrow> sys \<Rightarrow> exn + sys" where
  "fetchWallet_resume r s =
     try_catch
       (bind_exn (await_fetch r) (\<lambda>res.
        bind_exn (await_json res) (\<lambda>data.
        Inr (showMessage ''Wallet loaded!'' (setWallet data s)))))
       (\<lambda>err. Inr (showMessage ''Error loading wallet'' s))"

definition transferCredits :: "view \<Rightarrow> sys \<Rightarrow> sys" where
  "transferCredits env s =
     fetch (POST_transfer (userId env) (parseInt (transferAmount env)))
       K_transferCredits env s"

definition transferCredits_resume :: "view \<Rightarrow> unit reply \<Rightarrow> sys \<Rightarrow> exn + sys" where
  "transferCredits_resume env r s =
     try_catch
       (bind_exn (await_fetch r) (\<lambda>_.
        Inr (fetchWallet env
              (setTransferAmount ''''
                (showMessage ''Transfer complete!'' s)))))
       (\<lambda>err. Inr (showMessage ''Error transferring credits'' s))"

subsection \<open>The event loop\<close>

text \<open>
  What can happen to the mounted component: an input changes (\<open>onChange\<close>), a button or
  a form runs its handler, time passes, or the backend answers the \<open>i\<close>-th suspended
  handler. A click runs the handler of the latest render, so its closure is the current
  \<open>view\<close>; a continuation runs with the closure it was suspended with. The browser's
  form validation (\<open>required\<close>) only removes submit events and is not modelled.
\<close>

datatype event =
    SetActiveTab string
  | SetGenreId string
  | SetGenreName string
  | SetGenreListeners string
  | SetUserId string
  | SetUsername string
  | SetEmail string
  | SetSubLevel string
  | SetTransferAmount string
  | Click_fetchGenres
  | Submit_createGenre
  | Click_fetchProfile
  | Submit_createUser
  | Click_updateUser
  | Click_fetchWallet
  | Submit_transferCredits
  | Tick nat
  | GenresReply nat "Genre list reply"
  | ProfileReply nat "UserProfile reply"
  | WalletReply nat "Wallet reply"
  | WriteReply nat "unit reply"

definition dequeue :: "nat \<Rightarrow> sys \<Rightarrow> sys" where
  "dequeue i s = s\<lparr>inflight := take i (inflight s) @ drop (Suc i) (inflight s)\<rparr>"

text \<open>A handler's promise settles; a rejection nobody catches is recorded.\<close>

definition settle :: "sys \<Rightarrow> exn + sys \<Rightarrow> sys" where
  "settle s res = (case res of Inr s' \<Rightarrow> s' | Inl e \<Rightarrow> s\<lparr>unhandled := unhandled s @ [e]\<rparr>)"

definition resume_read :: "kont \<Rightarrow> nat \<Rightarrow> (sys \<Rightarrow> exn + sys) \<Rightarrow> sys \<Rightarrow> sys" where
  "resume_read k i body s =
     (if i < length (inflight s) \<and> fst (inflight s ! i) = k
      then settle (dequeue i s) (body (dequeue i s))
      else s)"

definition resume_write :: "nat \<Rightarrow> unit reply \<Rightarrow> sys \<Rightarrow> sys" where
  "resume_write i r s =
     (if i < length (inflight s) then
        (let env = snd (inflight s ! i); s' = dequeue i s in
         case fst (inflight s ! i) of
           K_createGenre \<Rightarrow> settle s' (createGenre_resume env r s')
         | K_createUser \<Rightarrow> settle s' (createUser_resume env r s')
         | K_updateUser \<Rightarrow> settle s' (updateUser_resume env r s')
         | K_transferCredits \<Rightarrow> settle s' (transferCredits_resume env r s')
         | _ \<Rightarrow> s)
      else s)"

fun step :: "event \<Rightarrow> sys \<Rightarrow> sys" where
  "step (SetActiveTab v) s = setActiveTab v s"
| "step (SetGenreId v) s = setGenreId v s"
| "step (SetGenreName v) s = setGenreName v s"
| "step (SetGenreListeners v) s = setGenreListeners v s"
| "step (SetUserId v) s = setUserId v s"
| "step (SetUsername v) s = setUsername v s"
| "step (SetEmail v) s = setEmail v s"
| "step (SetSubLevel v) s = setSubLevel v s"
| "step (SetTransferAmount v) s = setTransferAmount v s"
| "step Click_fetchGenres s = fetchGenres (view s) s"
| "step Submit_createGenre s = createGenre (view s) s"
| "step Click_fetchProfile s = fetchProfile (view s) s"
| "step Submit_createUser s = createUser (view s) s"
| "step Click_updateUser s = updateUser (view s) s"
| "step Click_fetchWallet s = fetchWallet (view s) s"
| "step Submit_transferCredits s = transferCredits (view s) s"
| "step (Tick dt) s = tick dt s"
| "step (GenresReply i r) s = resume_read K_fetchGenres i (fetchGenres_resume r) s"
| "step (ProfileReply i r) s = resume_read K_fetchProfile i (fetchProfile_resume r) s"
| "step (WalletReply i r) s = resume_read K_fetchWallet i (fetchWallet_resume r) s"
| "step (WriteReply i r) s = resume_write i r s"

fun run :: "event list \<Rightarrow> sys \<Rightarrow> sys" where
  "run [] s = s"
| "run (e # es) s = run es (step e s)"


subsection \<open>Reads that succeed, as seen from the event loop\<close>

text \<open>
  \<open>genres_read e s\<close> is the payload when event \<open>e\<close>, arriving in state \<open>s\<close>, is the
  successful completion of a genre read (a suspended \<open>fetchGenres\<close> is answered with
  JSON), and \<open>None\<close> otherwise; likewise for the profile and the wallet.
  \<open>last_read rd evs s\<close> is the payload of the most recent such completion in the run of
  \<open>evs\<close> from \<open>s\<close>, if there is one.
\<close>

definition genres_read :: "event \<Rightarrow> sys \<Rightarrow> Genre list option" where
  "genres_read e s =
     (case e of
        GenresReply i (Reply (Some d)) \<Rightarrow>
          if i < length (inflight s) \<and> fst (inflight s ! i) = K_fetchGenres
          then Some d else None
      | _ \<Rightarrow> None)"

definition profile_read :: "event \<Rightarrow> sys \<Rightarrow> UserProfile option" where
  "profile_read e s =
     (case e of
        ProfileReply i (Reply (Some d)) \<Rightarrow>
          if i < length (inflight s) \<and> fst (inflight s ! i) = K_fetchProfile
          then Some d else None
      | _ \<Rightarrow> None)"

definition wallet_read :: "event \<Rightarrow> sys \<Rightarrow> Wallet option" where
  "wallet_read e s =
     (case e of
        WalletReply i (Reply (Some d)) \<Rightarrow>
          if i < length (inflight s) \<and> fst (inflight s ! i) = K_fetchWallet
          then Some d else None
      | _ \<Rightarrow> None)"

fun last_read :: "(event \<Rightarrow> sys \<Rightarrow> 'a option) \<Rightarrow> event list \<Rightarrow> sys \<Rightarrow> 'a option" where
  "last_read rd [] s = None"
| "last_read rd (e # es) s =
     (case last_read rd es (step e s) of Some d \<Rightarrow> Some d | None \<Rightarrow> rd e s)"

subsection \<open>Concrete sessions\<close>

text \<open>
  The user form filled in with \<open>ann\<close>, \<open>a@x.com\<close> and level \<open>1\<close>; the session in which
  that form is submitted with \<open>Create\<close> and the backend accepts, up to the moment the
  create request resolves (\<open>ann_created\<close>) and up to the moment the refresh read
  returns the stored profile (\<open>ann_scenario\<close>).
\<close>

definition ann_form :: view where
  "ann_form = init_view\<lparr>username := ''ann'', email := ''a@x.com'', subLevel := ''1''\<rparr>"

definition ann :: UserProfile where
  "ann = \<lparr>u_id = ''user:1234'', u_username = ''ann'', u_email = ''a@x.com'',
           u_subscription_level = 1\<rparr>"

definition ann_created :: "event list" where
  "ann_created = [SetUsername ''ann'', SetEmail ''a@x.com'', SetSubLevel ''1'',
     Submit_createUser, WriteReply 0 (Reply (Some ()))]"

definition ann_scenario :: "event list" where
  "ann_scenario = ann_created @ [ProfileReply 0 (Reply (Some ann))]"

text \<open>
  A transfer of 20 is submitted for \<open>user:1234\<close>; while the request is in flight the
  identifier is changed to \<open>user:5678\<close>; then the transfer resolves.
\<close>

definition switch_scenario :: "event list" where
  "switch_scenario = [SetTransferAmount ''20'', Submit_transferCredits,
     SetUserId ''user:5678'', WriteReply 0 (Reply (Some ()))]"

text \<open>Two genres, and a genre form filled in.\<close>

definition rock :: Genre where
  "rock = \<lparr>g_id = ''ROCK'', g_name = ''Rock'', g_listeners = 100\<rparr>"

definition jazz :: Genre where
  "jazz = \<lparr>g_id = ''JAZZ'', g_name = ''Jazz'', g_listeners = 7\<rparr>"

definition rock_form :: view where
  "rock_form = init_view\<lparr>genreId := ''ROCK'', genreName := ''Rock'',
                           genreListeners := ''100''\<rparr>"

text \<open>
  A wallet before and after a transfer of 20, as the backend reports them.
\<close>

definition wallet_before :: Wallet where
  "wallet_before = \<lparr>coin_balance = 100, credit_balance = 0\<rparr>"

definition wallet_after :: Wallet where
  "wallet_after = \<lparr>coin_balance = 80, credit_balance = 20\<rparr>"

section \<open>Properties\<close>

subsection \<open>Unfolding and the steps of the event loop\<close>

lemmas set_defs = setActiveTab_def setGenres_def setProfile_def setWallet_def setMessage_def
  setGenreId_def setGenreName_def setGenreListeners_def setUserId_def setUsername_def
  setEmail_def setSubLevel_def setTransferAmount_def

lemmas promise_defs = try_catch_def bind_exn_def await_fetch_def await_json_def

lemmas start_defs = fetch_def fetchGenres_def createGenre_def fetchProfile_def createUser_def
  updateUser_def fetchWallet_def transferCredits_def user_body_def

lemmas resume_defs = fetchGenres_resume_def createGenre_resume_def fetchProfile_resume_def
  createUser_resume_def updateUser_resume_def fetchWallet_resume_def
  transferCredits_resume_def showMessage_def

lemmas loop_defs = resume_read_def resume_write_def settle_def dequeue_def tick_def

lemmas parse_defs = parseInt_def isWhiteSpace_def digitValue_def radixValue_def toDouble_def
  bitLength.simps

lemmas eval_defs = init_def init_view_def set_defs promise_defs start_defs resume_defs
  loop_defs parse_defs

text \<open>
  The decimal strings the inputs produce parse to their value; no digit gives \<open>NaN\<close>;
  an integer that is no double is rounded to the nearest one, ties to even.
\<close>

lemma parseInt_examples:
  "parseInt ''0'' = Num 0" "parseInt ''1'' = Num 1" "parseInt ''2'' = Num 2"
  "parseInt ''20'' = Num 20" "parseInt '' -0x1F'' = Num (- 31)" "parseInt ''12.5'' = Num 12"
  "parseInt '''' = NaN" "parseInt ''abc'' = NaN" "parseInt ''-0'' = Num 0"
  "parseInt (CHR 0xA0 # ''12'') = Num 12"
  "parseInt ''9007199254740992'' = Num 9007199254740992"
  "parseInt ''9007199254740993'' = Num 9007199254740992"
  "parseInt ''9007199254740995'' = Num 9007199254740996"
  "parseInt ''-9007199254740993'' = Num (- 9007199254740992)"
  "parseInt ''0x20000000000001'' = Num 9007199254740992"
  by (simp_all add: parse_defs Let_def)

lemma toDouble_examples:
  "toDouble 9007199254740993 = Some 9007199254740992"
  "toDouble (10 ^ 23) = Some 99999999999999991611392"
  by (simp_all add: toDouble_def bitLength.simps Let_def)

text \<open>A number of \<open>L\<close> bits lies between \<open>2 ^ (L - 1)\<close> and \<open>2 ^ L\<close>.\<close>

lemma bitLength_bounds: "n \<noteq> 0 \<Longrightarrow> 2 ^ (bitLength n - 1) \<le> n \<and> n < 2 ^ bitLength n"
proof (induction n rule: bitLength.induct)
  case (1 n)
  show ?case
  proof (cases "n div 2 = 0")
    case True
    with "1.prems" have "n = 1" by presburger
    then show ?thesis by (simp add: bitLength.simps)
  next
    case False
    with "1.IH" "1.prems"
    have ih: "2 ^ (bitLength (n div 2) - 1) \<le> n div 2" "n div 2 < 2 ^ bitLength (n div 2)"
      by simp_all
    have pos: "bitLength (n div 2) \<noteq> 0"
      using False by (simp add: bitLength.simps [of "n div 2"])
    have len: "bitLength n = Suc (bitLength (n div 2))"
      using "1.prems" by (simp add: bitLength.simps [of n])
    have "2 * 2 ^ (bitLength (n div 2) - 1) \<le> n"
      using ih(1) by presburger
    moreover have "2 * 2 ^ (bitLength (n div 2) - 1) = (2::nat) ^ bitLength (n div 2)"
      using pos by (cases "bitLength (n div 2)") simp_all
    moreover have "n < 2 * 2 ^ bitLength (n div 2)"
      using ih(2) by presburger
    ultimately show ?thesis
      using len by simp
  qed
qed

text \<open>Below \<open>2 ^ 53\<close> nothing is rounded; from \<open>2 ^ 1024\<close> on the result is infinity.\<close>

lemma toDouble_small: "n < 2 ^ 53 \<Longrightarrow> toDouble n = Some n"
  by (simp add: toDouble_def)

lemma toDouble_overflow:
  assumes "2 ^ 1024 \<le> n"
  shows "toDouble n = None"
proof -
  define L where "L = bitLength n"
  define e where "e = L - 53"
  define q where "q = n div 2 ^ e"
  have n0: "n \<noteq> 0" using assms by auto
  from bitLength_bounds [OF n0]
  have lo: "2 ^ (L - 1) \<le> n" and hi: "n < 2 ^ L"
    by (simp_all add: L_def)
  have "(2::nat) ^ 1024 < 2 ^ L"
    using assms hi by (rule le_less_trans)
  then have L: "1024 < L"
    by (simp only: power_strict_increasing_iff [of "2::nat"] one_less_numeral_iff semiring_norm)
  then have e: "e + 52 = L - 1"
    by (simp add: e_def)
  have big: "\<not> n < 2 ^ 53"
  proof -
    have "(2::nat) ^ 53 \<le> 2 ^ 1024"
      by (rule power_increasing) simp_all
    with assms show ?thesis by linarith
  qed
  have split: "2 ^ 52 * (2::nat) ^ e = 2 ^ (L - 1)"
    using e by (simp add: power_add [symmetric] add.commute del: power_numeral)
  with lo have "2 ^ 52 * (2::nat) ^ e \<le> n" by simp
  then have "2 ^ 52 \<le> q"
    unfolding q_def by (simp add: less_eq_div_iff_mult_less_eq)
  then have "2 ^ 52 * (2::nat) ^ e \<le> q * 2 ^ e"
    by (rule mult_le_mono1)
  moreover have "(2::nat) ^ 1024 \<le> 2 ^ (L - 1)"
    by (rule power_increasing) (use L in simp_all)
  ultimately have ge: "(2::nat) ^ 1024 \<le> q * 2 ^ e"
    using split by linarith
  have ge': "(2::nat) ^ 1024 \<le> (q + 1) * 2 ^ e"
    using ge by (simp add: algebra_simps)
  show ?thesis
    using big ge ge'
    unfolding toDouble_def Let_def L_def [symmetric] e_def [symmetric] q_def [symmetric]
    by (simp del: power_numeral)
qed

text \<open>
  One step changes a snapshot only by completing a successful read of its domain, and
  then to exactly the payload.
\<close>

lemma step_genres:
  "genres (view (step e s)) =
     (case genres_read e s of Some d \<Rightarrow> d | None \<Rightarrow> genres (view s))"
  by (cases e)
     (auto simp: genres_read_def set_defs promise_defs start_defs resume_defs loop_defs
        Let_def split: reply.splits option.splits kont.splits)

lemma step_profile:
  "profile (view (step e s)) =
     (case profile_read e s of Some d \<Rightarrow> Some d | None \<Rightarrow> profile (view s))"
  by (cases e)
     (auto simp: profile_read_def set_defs promise_defs start_defs resume_defs loop_defs
        Let_def split: reply.splits option.splits kont.splits)

lemma step_wallet:
  "wallet (view (step e s)) =
     (case wallet_read e s of Some d \<Rightarrow> Some d | None \<Rightarrow> wallet (view s))"
  by (cases e)
     (auto simp: wallet_read_def set_defs promise_defs start_defs resume_defs loop_defs
        Let_def split: reply.splits option.splits kont.splits)

lemma run_genres:
  "genres (view (run evs s)) =
     (case last_read genres_read evs s of Some d \<Rightarrow> d | None \<Rightarrow> genres (view s))"
  by (induction evs arbitrary: s) (simp_all add: step_genres split: option.splits)

lemma run_profile:
  "profile (view (run evs s)) =
     (case last_read profile_read evs s of Some d \<Rightarrow> Some d | None \<Rightarrow> profile (view s))"
  by (induction evs arbitrary: s) (simp_all add: step_profile split: option.splits)

lemma run_wallet:
  "wallet (view (run evs s)) =
     (case last_read wallet_read evs s of Some d \<Rightarrow> Some d | None \<Rightarrow> wallet (view s))"
  by (induction evs arbitrary: s) (simp_all add: step_wallet split: option.splits)

text \<open>No step records an uncaught rejection.\<close>

lemma step_unhandled: "unhandled (step e s) = unhandled s"
  by (cases e)
     (simp_all add: set_defs promise_defs start_defs resume_defs loop_defs
        Let_def split: reply.splits option.splits kont.splits)

lemma run_unhandled: "unhandled (run evs s) = unhandled s"
  by (induction evs arbitrary: s) (simp_all add: step_unhandled)

subsection \<open>The notification\<close>

text \<open>
  Claim C1, as amended. After \<open>showMessage m\<close> the message is \<open>m\<close>, and one more timeout
  is pending, 3000 ms ahead; the timeouts registered before are all still pending
  (nothing is cancelled). The message stays \<open>m\<close> for as long as no pending timeout
  fires, which is the full 3000 ms when none was pending before, and it is empty once
  3000 ms have passed. A second \<open>showMessage n\<close> after \<open>dt\<close> ms replaces the text at
  once and registers its own timeout next to the first one; when \<open>dt < 3000\<close> the first
  timeout is still pending and empties the message \<open>n\<close> as soon as 3000 ms have passed
  since the first call.
\<close>

theorem showMessage_expiry:
  "message (view (showMessage m s)) = m \<and>
   timers (showMessage m s) = timers s @ [now s + 3000] \<and>
   (dt < 3000 \<and> (\<forall>d\<in>set (timers s). now s + dt < d) \<longrightarrow>
      message (view (tick dt (showMessage m s))) = m) \<and>
   (3000 \<le> dt \<longrightarrow> message (view (tick dt (showMessage m s))) = '''') \<and>
   message (view (showMessage n (tick dt (showMessage m s)))) = n \<and>
   timers (showMessage n (tick dt (showMessage m s))) =
     filter (\<lambda>d. now s + dt < d) (timers s @ [now s + 3000]) @ [now s + dt + 3000] \<and>
   (dt < 3000 \<and> 3000 \<le> dt + du \<longrightarrow>
      message (view (tick du (showMessage n (tick dt (showMessage m s))))) = '''')"
  by (auto simp: showMessage_def tick_def setMessage_def Let_def filter_empty_conv)

text \<open>
  In a fresh session: the message \<open>a\<close> is shown after 2000 ms and gone after 3000 ms;
  a second message \<open>b\<close> at 2000 ms leaves the timeouts of both calls pending, and is
  gone 1000 ms later.
\<close>

theorem showMessage_expiry_witness:
  "timers init = [] \<and>
   message (view (tick 2000 (showMessage ''a'' init))) = ''a'' \<and>
   message (view (tick 3000 (showMessage ''a'' init))) = '''' \<and>
   timers (showMessage ''b'' (tick 2000 (showMessage ''a'' init))) = [3000, 5000] \<and>
   message (view (tick 1000 (showMessage ''b'' (tick 2000 (showMessage ''a'' init))))) = ''''"
  using showMessage_expiry
          [where s = init and m = "''a''" and dt = 2000 and n = "''b''" and du = 1000]
        showMessage_expiry
          [where s = init and m = "''a''" and dt = 3000 and n = "''b''" and du = 0]
  by (simp add: init_def)

text \<open>
  The claim as written fails: 1000 ms after the latest notification \<open>b\<close> the message
  is no longer \<open>b\<close>, although the fixed duration of 3000 ms has not passed since.
\<close>

theorem showMessage_latest_cut_short:
  "\<not> message (view (tick 1000 (showMessage ''b'' (tick 2000 (showMessage ''a'' init))))) = ''b''"
  by (simp add: eval_defs)

subsection \<open>Genres\<close>

text \<open>
  Claim C4. \<open>fetchGenres\<close> issues the list read. When the read succeeds with the
  sequence \<open>data\<close>, the held list is exactly \<open>data\<close>, in the order received, whatever
  the list was before, and the message is \<open>Genres loaded!\<close>; the same holds in the
  event loop when the click is answered.
\<close>

theorem fetchGenres_replaces_wholesale:
  "requests (fetchGenres env s) = requests s @ [GET_genres] \<and>
   (case fetchGenres_resume (Reply (Some data)) s of
      Inl e \<Rightarrow> False
    | Inr s' \<Rightarrow> genres (view s') = data \<and> message (view s') = ''Genres loaded!'') \<and>
   genres (view (run [Click_fetchGenres,
                      GenresReply (length (inflight s)) (Reply (Some data))] s)) = data \<and>
   message (view (run [Click_fetchGenres,
                       GenresReply (length (inflight s)) (Reply (Some data))] s)) =
     ''Genres loaded!''"
  by (simp add: set_defs promise_defs start_defs resume_defs loop_defs)

text \<open>A list holding \<open>jazz\<close> is replaced by \<open>[rock, jazz]\<close>, then by \<open>[]\<close>.\<close>

theorem fetchGenres_replaces_wholesale_witness:
  "genres (view (run [Click_fetchGenres, GenresReply 0 (Reply (Some [rock, jazz]))]
                   (setGenres [jazz] init))) = [rock, jazz] \<and>
   genres (view (run [Click_fetchGenres, GenresReply 0 (Reply (Some []))]
                   (setGenres [rock, jazz] init))) = []"
  using fetchGenres_replaces_wholesale [of init_view "setGenres [jazz] init" "[rock, jazz]"]
        fetchGenres_replaces_wholesale [of init_view "setGenres [rock, jazz] init" "[]"]
  by (simp add: init_def setGenres_def)

text \<open>
  Claim C5. \<open>createGenre\<close> sends the three fields, the listeners through \<open>parseInt\<close>.
  When the request resolves, with whatever response, the three fields are empty,
  the message is \<open>Genre created!\<close> and a list read has been issued. When it rejects,
  the message is \<open>Error creating genre\<close>, the three fields and the genre list are what
  they were, and no request has been issued.
\<close>

theorem createGenre_outcomes:
  "requests (createGenre env s) =
     requests s @ [POST_genres \<lparr>gp_id = genreId env, gp_name = genreName env,
                                 gp_listeners = parseInt (genreListeners env)\<rparr>] \<and>
   (case createGenre_resume env (Reply b) s of
      Inl e \<Rightarrow> False
    | Inr s' \<Rightarrow>
        genreId (view s') = '''' \<and> genreName (view s') = '''' \<and>
        genreListeners (view s') = '''' \<and> message (view s') = ''Genre created!'' \<and>
        requests s' = requests s @ [GET_genres] \<and>
        inflight s' = inflight s @ [(K_fetchGenres, env)]) \<and>
   (case createGenre_resume env NetworkFailure s of
      Inl e \<Rightarrow> False
    | Inr s' \<Rightarrow>
        message (view s') = ''Error creating genre'' \<and>
        genreId (view s') = genreId (view s) \<and> genreName (view s') = genreName (view s) \<and>
        genreListeners (view s') = genreListeners (view s) \<and>
        requests s' = requests s \<and> inflight s' = inflight s \<and>
        genres (view s') = genres (view s))"
  by (simp add: set_defs promise_defs start_defs resume_defs)

text \<open>
  The form \<open>ROCK\<close>, \<open>Rock\<close>, \<open>100\<close> over a list holding \<open>jazz\<close>: the request sent, and
  the state after a network failure.
\<close>

theorem createGenre_outcomes_witness:
  "requests (createGenre rock_form init) =
     [POST_genres \<lparr>gp_id = ''ROCK'', gp_name = ''Rock'', gp_listeners = Num 100\<rparr>] \<and>
   (case createGenre_resume rock_form NetworkFailure
           (init\<lparr>view := rock_form\<lparr>genres := [jazz]\<rparr>\<rparr>) of
      Inl e \<Rightarrow> False
    | Inr s' \<Rightarrow>
        message (view s') = ''Error creating genre'' \<and> genreId (view s') = ''ROCK'' \<and>
        genreName (view s') = ''Rock'' \<and> genreListeners (view s') = ''100'' \<and>
        requests s' = [] \<and> genres (view s') = [jazz])"
  using createGenre_outcomes [of rock_form init "Some ()"]
        createGenre_outcomes
          [of rock_form "init\<lparr>view := rock_form\<lparr>genres := [jazz]\<rparr>\<rparr>" "Some ()"]
  by (simp add: rock_form_def init_def init_view_def parse_defs split: sum.splits)

subsection \<open>Users\<close>

text \<open>
  Claim C2, as amended. \<open>createUser\<close> sends the identifier and the three fields, the
  level through \<open>parseInt\<close>. When the request resolves, the message is
  \<open>User created!\<close>, a profile read keyed by the same identifier has been issued and
  the profile snapshot is what it was. When that read then succeeds with \<open>p\<close>, the
  snapshot is \<open>p\<close> and the message is \<open>Profile loaded!\<close>. When the create request
  rejects, the message is \<open>Error creating user\<close> and nothing is issued.
\<close>

theorem createUser_outcomes:
  "requests (createUser env s) =
     requests s @ [POST_users \<lparr>up_id = userId env, up_username = username env,
                     up_email = email env,
                     up_subscription_level = parseInt (subLevel env)\<rparr>] \<and>
   (case createUser_resume env (Reply b) s of
      Inl e \<Rightarrow> False
    | Inr s' \<Rightarrow>
        message (view s') = ''User created!'' \<and>
        requests s' = requests s @ [GET_user (userId env)] \<and>
        inflight s' = inflight s @ [(K_fetchProfile, env)] \<and>
        profile (view s') = profile (view s)) \<and>
   (case fetchProfile_resume (Reply (Some p)) s of
      Inl e \<Rightarrow> False
    | Inr s' \<Rightarrow> profile (view s') = Some p \<and> message (view s') = ''Profile loaded!'') \<and>
   (case createUser_resume env NetworkFailure s of
      Inl e \<Rightarrow> False
    | Inr s' \<Rightarrow>
        message (view s') = ''Error creating user'' \<and>
        requests s' = requests s \<and> inflight s' = inflight s \<and>
        profile (view s') = profile (view s))"
  by (simp add: set_defs promise_defs start_defs resume_defs)

theorem createUser_outcomes_witness:
  "requests (createUser ann_form init) =
     [POST_users \<lparr>up_id = ''user:1234'', up_username = ''ann'', up_email = ''a@x.com'',
                   up_subscription_level = Num 1\<rparr>] \<and>
   (case createUser_resume ann_form (Reply (Some ())) init of
      Inl e \<Rightarrow> False
    | Inr s' \<Rightarrow> message (view s') = ''User created!'' \<and>
        requests s' = [GET_user ''user:1234''] \<and> profile (view s') = None) \<and>
   (case fetchProfile_resume (Reply (Some ann)) init of
      Inl e \<Rightarrow> False
    | Inr s' \<Rightarrow> profile (view s') = Some ann \<and> message (view s') = ''Profile loaded!'') \<and>
   (case createUser_resume ann_form NetworkFailure init of
      Inl e \<Rightarrow> False
    | Inr s' \<Rightarrow> message (view s') = ''Error creating user'' \<and> requests s' = [])"
  using createUser_outcomes [of ann_form init "Some ()" ann]
  by (simp add: ann_form_def init_def init_view_def parse_defs split: sum.splits)

text \<open>
  The claim as written fails in its scenario. When the create request has resolved the
  message is \<open>User created!\<close> and the snapshot is still absent; when the refresh has
  returned the profile the message is \<open>Profile loaded!\<close>. In neither state is the
  snapshot the submitted profile while the notification reads \<open>User created!\<close>.
\<close>

theorem createUser_scenario_notification:
  "\<not> (profile (view (run ann_scenario init)) = Some ann \<and>
       message (view (run ann_scenario init)) = ''User created!'') \<and>
   \<not> (profile (view (run ann_created init)) = Some ann \<and>
       message (view (run ann_created init)) = ''User created!'') \<and>
   message (view (run ann_scenario init)) = ''Profile loaded!'' \<and>
   profile (view (run ann_scenario init)) = Some ann \<and>
   message (view (run ann_created init)) = ''User created!'' \<and>
   profile (view (run ann_created init)) = None"
  by (simp add: ann_scenario_def ann_created_def ann_def eval_defs)

text \<open>
  Claim C9. A profile read that is issued and answered, then issued and answered again
  with the same reply, leaves the snapshot of the first answer; so do two reads issued
  together and answered one after the other. Both requests carry the same identifier.
\<close>

theorem fetchProfile_idempotent:
  "profile (view (run [Click_fetchProfile, ProfileReply (length (inflight s)) r,
                       Click_fetchProfile, ProfileReply (length (inflight s)) r] s)) =
   profile (view (run [Click_fetchProfile, ProfileReply (length (inflight s)) r] s)) \<and>
   profile (view (run [Click_fetchProfile, Click_fetchProfile,
                       ProfileReply (length (inflight s)) r,
                       ProfileReply (length (inflight s)) r] s)) =
   profile (view (run [Click_fetchProfile, Click_fetchProfile,
                       ProfileReply (length (inflight s)) r] s)) \<and>
   requests (run [Click_fetchProfile, ProfileReply (length (inflight s)) r,
                  Click_fetchProfile, ProfileReply (length (inflight s)) r] s) =
     requests s @ [GET_user (userId (view s)), GET_user (userId (view s))]"
  by (simp add: set_defs promise_defs start_defs resume_defs loop_defs
        nth_append split: reply.splits option.splits)

theorem fetchProfile_idempotent_witness:
  "profile (view (run [Click_fetchProfile, ProfileReply 0 (Reply (Some ann)),
                       Click_fetchProfile, ProfileReply 0 (Reply (Some ann))] init)) =
     Some ann \<and>
   profile (view (run [Click_fetchProfile, ProfileReply 0 (Reply (Some ann))] init)) =
     Some ann \<and>
   requests (run [Click_fetchProfile, ProfileReply 0 (Reply (Some ann)),
                  Click_fetchProfile, ProfileReply 0 (Reply (Some ann))] init) =
     [GET_user ''user:1234'', GET_user ''user:1234'']"
  using fetchProfile_idempotent [of init "Reply (Some ann)"]
  by (simp add: eval_defs)

text \<open>
  Claim C10. \<open>createUser\<close> and \<open>updateUser\<close> leave the fields \<open>username\<close>, \<open>email\<close> and
  \<open>subLevel\<close> as they are: when the request is issued, when it settles with any
  outcome \<open>r\<close>, and when the refresh read they trigger settles with any outcome \<open>rp\<close>.
\<close>

theorem user_form_never_cleared:
  "username (view (createUser env s)) = username (view s) \<and>
   email (view (createUser env s)) = email (view s) \<and>
   subLevel (view (createUser env s)) = subLevel (view s) \<and>
   username (view (updateUser env s)) = username (view s) \<and>
   email (view (updateUser env s)) = email (view s) \<and>
   subLevel (view (updateUser env s)) = subLevel (view s) \<and>
   (case createUser_resume env r s of
      Inl e \<Rightarrow> False
    | Inr s' \<Rightarrow> username (view s') = username (view s) \<and> email (view s') = email (view s) \<and>
        subLevel (view s') = subLevel (view s)) \<and>
   (case updateUser_resume env r s of
      Inl e \<Rightarrow> False
    | Inr s' \<Rightarrow> username (view s') = username (view s) \<and> email (view s') = email (view s) \<and>
        subLevel (view s') = subLevel (view s)) \<and>
   (case fetchProfile_resume rp s of
      Inl e \<Rightarrow> False
    | Inr s' \<Rightarrow> username (view s') = username (view s) \<and> email (view s') = email (view s) \<and>
        subLevel (view s') = subLevel (view s))"
  by (simp add: set_defs promise_defs start_defs resume_defs
        split: reply.splits option.splits)

theorem user_form_never_cleared_witness:
  "(case createUser_resume ann_form (Reply (Some ())) (init\<lparr>view := ann_form\<rparr>) of
      Inl e \<Rightarrow> False
    | Inr s' \<Rightarrow> username (view s') = ''ann'' \<and> email (view s') = ''a@x.com'' \<and>
        subLevel (view s') = ''1'') \<and>
   (case updateUser_resume ann_form NetworkFailure (init\<lparr>view := ann_form\<rparr>) of
      Inl e \<Rightarrow> False
    | Inr s' \<Rightarrow> username (view s') = ''ann'' \<and> email (view s') = ''a@x.com'' \<and>
        subLevel (view s') = ''1'')"
  using user_form_never_cleared
          [of ann_form "init\<lparr>view := ann_form\<rparr>" "Reply (Some ())" NetworkFailure]
        user_form_never_cleared
          [of ann_form "init\<lparr>view := ann_form\<rparr>" NetworkFailure NetworkFailure]
  by (simp add: ann_form_def init_def init_view_def split: sum.splits)

subsection \<open>Wallet\<close>

text \<open>
  Claim C6. Submitting the transfer form sends the amount, the number that \<open>parseInt\<close>
  returns for the text of the field, keyed by the current identifier. When the request
  resolves, the amount field is empty, the message is \<open>Transfer complete!\<close> and a
  wallet read has been issued; when that read succeeds with \<open>w\<close>, the snapshot holds
  the two balances of \<open>w\<close> and the message is \<open>Wallet loaded!\<close>. When the transfer
  request rejects, the message is \<open>Error transferring credits\<close>, the amount field and
  the wallet snapshot are what they were, and no request has been issued. The same is
  stated for the event loop, from the submit to the answer of the refresh.
\<close>

theorem transferCredits_outcomes:
  "requests (step Submit_transferCredits s) =
     requests s @ [POST_transfer (userId (view s)) (parseInt (transferAmount (view s)))] \<and>
   inflight (step Submit_transferCredits s) = inflight s @ [(K_transferCredits, view s)] \<and>
   (case transferCredits_resume env (Reply b) s of
      Inl e \<Rightarrow> False
    | Inr s' \<Rightarrow>
        transferAmount (view s') = '''' \<and> message (view s') = ''Transfer complete!'' \<and>
        requests s' = requests s @ [GET_wallet (userId env)] \<and>
        inflight s' = inflight s @ [(K_fetchWallet, env)]) \<and>
   (case fetchWallet_resume (Reply (Some w)) s of
      Inl e \<Rightarrow> False
    | Inr s' \<Rightarrow>
        wallet (view s') = Some w \<and> message (view s') = ''Wallet loaded!'' \<and>
        transferAmount (view s') = transferAmount (view s)) \<and>
   (case transferCredits_resume env NetworkFailure s of
      Inl e \<Rightarrow> False
    | Inr s' \<Rightarrow>
        message (view s') = ''Error transferring credits'' \<and>
        transferAmount (view s') = transferAmount (view s) \<and>
        wallet (view s') = wallet (view s) \<and>
        requests s' = requests s \<and> inflight s' = inflight s) \<and>
   wallet (view (run [Submit_transferCredits,
                      WriteReply (length (inflight s)) (Reply b),
                      WalletReply (length (inflight s)) (Reply (Some w))] s)) = Some w \<and>
   transferAmount (view (run [Submit_transferCredits,
                      WriteReply (length (inflight s)) (Reply b),
                      WalletReply (length (inflight s)) (Reply (Some w))] s)) = '''' \<and>
   requests (run [Submit_transferCredits,
                  WriteReply (length (inflight s)) (Reply b),
                  WalletReply (length (inflight s)) (Reply (Some w))] s) =
     requests s @ [POST_transfer (userId (view s)) (parseInt (transferAmount (view s))),
                   GET_wallet (userId (view s))] \<and>
   wallet (view (run [Submit_transferCredits,
                      WriteReply (length (inflight s)) NetworkFailure] s)) =
     wallet (view s) \<and>
   transferAmount (view (run [Submit_transferCredits,
                      WriteReply (length (inflight s)) NetworkFailure] s)) =
     transferAmount (view s) \<and>
   message (view (run [Submit_transferCredits,
                       WriteReply (length (inflight s)) NetworkFailure] s)) =
     ''Error transferring credits''"
  by (simp add: set_defs promise_defs fetch_def fetchWallet_def transferCredits_def
        resume_defs loop_defs Let_def)

text \<open>
  The wallet shows 100 coins and no credits and the amount field holds \<open>20\<close>: the
  request carries 20; after the transfer and the refresh the balances are 80 and 20
  and the field is empty; after a network failure the balances are 100 and 0 and the
  field still holds \<open>20\<close>. An amount text of 16 digits that is no double is sent as the
  nearest double.
\<close>

theorem transferCredits_outcomes_witness:
  "requests (step Submit_transferCredits
               (setTransferAmount ''20'' (setWallet wallet_before init))) =
     [POST_transfer ''user:1234'' (Num 20)] \<and>
   wallet (view (run [Submit_transferCredits, WriteReply 0 (Reply (Some ())),
                      WalletReply 0 (Reply (Some wallet_after))]
                   (setTransferAmount ''20'' (setWallet wallet_before init)))) =
     Some \<lparr>coin_balance = 80, credit_balance = 20\<rparr> \<and>
   transferAmount (view (run [Submit_transferCredits, WriteReply 0 (Reply (Some ())),
                      WalletReply 0 (Reply (Some wallet_after))]
                   (setTransferAmount ''20'' (setWallet wallet_before init)))) = '''' \<and>
   wallet (view (run [Submit_transferCredits, WriteReply 0 NetworkFailure]
                   (setTransferAmount ''20'' (setWallet wallet_before init)))) =
     Some \<lparr>coin_balance = 100, credit_balance = 0\<rparr> \<and>
   transferAmount (view (run [Submit_transferCredits, WriteReply 0 NetworkFailure]
                   (setTransferAmount ''20'' (setWallet wallet_before init)))) = ''20'' \<and>
   requests (step Submit_transferCredits (setTransferAmount ''9007199254740993'' init)) =
     [POST_transfer ''user:1234'' (Num 9007199254740992)]"
  using transferCredits_outcomes
          [of "setTransferAmount ''20'' (setWallet wallet_before init)" init_view "Some ()"
              wallet_after]
        transferCredits_outcomes
          [of "setTransferAmount ''9007199254740993'' init" init_view "Some ()" wallet_after]
  by (simp add: setTransferAmount_def setWallet_def wallet_before_def wallet_after_def
        init_def init_view_def parse_defs Let_def)


subsection \<open>The identifier of a request\<close>

text \<open>
  Claim C7, as amended. When the identifier is set to \<open>new\<close> and the wallet or the
  profile is then loaded with its button, the request is keyed by \<open>new\<close>. The read that
  a transfer, a create or an update triggers when its request resolves is keyed by the
  identifier of the render in which the action was submitted, also when the identifier
  has been set to \<open>new\<close> while the request was in flight.
\<close>

theorem load_request_identifier:
  "requests (run [SetUserId new, Click_fetchWallet] s) = requests s @ [GET_wallet new] \<and>
   requests (run [SetUserId new, Click_fetchProfile] s) = requests s @ [GET_user new] \<and>
   requests (run [Submit_transferCredits, SetUserId new,
                  WriteReply (length (inflight s)) (Reply b)] s) =
     requests s @ [POST_transfer (userId (view s)) (parseInt (transferAmount (view s))),
                   GET_wallet (userId (view s))] \<and>
   requests (run [Submit_createUser, SetUserId new,
                  WriteReply (length (inflight s)) (Reply b)] s) =
     requests s @ [POST_users (user_body (view s)), GET_user (userId (view s))] \<and>
   requests (run [Click_updateUser, SetUserId new,
                  WriteReply (length (inflight s)) (Reply b)] s) =
     requests s @ [PUT_user (userId (view s)) (user_body (view s)),
                   GET_user (userId (view s))]"
  by (simp add: set_defs promise_defs fetch_def fetchWallet_def fetchProfile_def
        transferCredits_def createUser_def updateUser_def resume_defs loop_defs Let_def)

theorem load_request_identifier_witness:
  "requests (run [SetUserId ''user:5678'', Click_fetchWallet] init) =
     [GET_wallet ''user:5678''] \<and>
   requests (run [SetUserId ''user:5678'', Click_fetchProfile] init) =
     [GET_user ''user:5678''] \<and>
   requests (run [Submit_createUser, SetUserId ''user:5678'',
                  WriteReply 0 (Reply (Some ()))] init) =
     [POST_users \<lparr>up_id = ''user:1234'', up_username = '''', up_email = '''',
                   up_subscription_level = Num 0\<rparr>, GET_user ''user:1234'']"
  using load_request_identifier [of "''user:5678''" init "Some ()"]
  by (simp add: init_def init_view_def user_body_def parse_defs)

text \<open>
  The claim as written fails: in \<open>switch_scenario\<close> the identifier is \<open>user:5678\<close>
  when the transfer resolves and calls \<open>fetchWallet\<close>, and the request that call issues
  is keyed by \<open>user:1234\<close>, the identifier captured when the form was submitted.
\<close>

theorem refresh_keyed_by_captured_identifier:
  "userId (view (run switch_scenario init)) = ''user:5678'' \<and>
   requests (run switch_scenario init) =
     [POST_transfer ''user:1234'' (Num 20), GET_wallet ''user:1234''] \<and>
   last (requests (run switch_scenario init)) \<noteq> GET_wallet ''user:5678''"
  by (simp add: switch_scenario_def eval_defs)

subsection \<open>Failed reads and uncaught errors\<close>

text \<open>
  Claim C3. A read whose \<open>fetch\<close> or whose \<open>json()\<close> rejects leaves the snapshot of its
  domain as it was. In every session from the initial state, the genre list is empty
  or the payload of the most recent successful genre read, and the profile and the
  wallet are absent or the payload of the most recent successful read of theirs.
\<close>

theorem failed_read_keeps_snapshot:
  "(rg = NetworkFailure \<or> rg = Reply None \<longrightarrow>
     (case fetchGenres_resume rg s of
        Inl e \<Rightarrow> False | Inr s' \<Rightarrow> genres (view s') = genres (view s))) \<and>
   (rp = NetworkFailure \<or> rp = Reply None \<longrightarrow>
     (case fetchProfile_resume rp s of
        Inl e \<Rightarrow> False | Inr s' \<Rightarrow> profile (view s') = profile (view s))) \<and>
   (rw = NetworkFailure \<or> rw = Reply None \<longrightarrow>
     (case fetchWallet_resume rw s of
        Inl e \<Rightarrow> False | Inr s' \<Rightarrow> wallet (view s') = wallet (view s))) \<and>
   genres (view (run evs init)) =
     (case last_read genres_read evs init of None \<Rightarrow> [] | Some d \<Rightarrow> d) \<and>
   profile (view (run evs init)) = last_read profile_read evs init \<and>
   wallet (view (run evs init)) = last_read wallet_read evs init"
  by (auto simp: run_genres run_profile run_wallet init_def init_view_def
        set_defs promise_defs resume_defs split: option.splits)

text \<open>
  A genre list \<open>[rock]\<close> survives a read that fails in the network and one whose body
  is not JSON; a session with a successful and then a failed genre read ends with the
  payload of the successful one, and with no profile.
\<close>

theorem failed_read_keeps_snapshot_witness:
  "(case fetchGenres_resume NetworkFailure (setGenres [rock] init) of
      Inl e \<Rightarrow> False | Inr s' \<Rightarrow> genres (view s') = [rock]) \<and>
   (case fetchGenres_resume (Reply None) (setGenres [rock] init) of
      Inl e \<Rightarrow> False | Inr s' \<Rightarrow> genres (view s') = [rock]) \<and>
   genres (view (run [Click_fetchGenres, GenresReply 0 (Reply (Some [rock, jazz])),
                      Click_fetchGenres, GenresReply 0 NetworkFailure] init)) =
     [rock, jazz] \<and>
   last_read profile_read [Click_fetchGenres, GenresReply 0 (Reply (Some [rock, jazz])),
                      Click_fetchGenres, GenresReply 0 NetworkFailure] init = None"
  using failed_read_keeps_snapshot
          [of NetworkFailure "setGenres [rock] init" NetworkFailure NetworkFailure
              "[Click_fetchGenres, GenresReply 0 (Reply (Some [rock, jazz])),
                Click_fetchGenres, GenresReply 0 NetworkFailure]"]
        failed_read_keeps_snapshot
          [of "Reply None" "setGenres [rock] init" "Reply None" "Reply None" "[]"]
  by (simp add: genres_read_def profile_read_def eval_defs split: sum.splits)

text \<open>
  Claim C8. Every error a handler can meet becomes a notification and nothing else:
  when \<open>fetch\<close> rejects, in each of the seven handlers, and when \<open>json()\<close> rejects, in
  each of the three reads, the handler's promise is fulfilled in the state in which
  \<open>showMessage\<close> has shown the handler's own error text. The promise of every handler
  is fulfilled whatever the backend answers, and no session from the initial state
  records an uncaught rejection.
\<close>

theorem handlers_never_reject:
  "fetchGenres_resume NetworkFailure s = Inr (showMessage ''Error loading genres'' s) \<and>
   fetchGenres_resume (Reply None) s = Inr (showMessage ''Error loading genres'' s) \<and>
   createGenre_resume env NetworkFailure s = Inr (showMessage ''Error creating genre'' s) \<and>
   fetchProfile_resume NetworkFailure s = Inr (showMessage ''Error loading profile'' s) \<and>
   fetchProfile_resume (Reply None) s = Inr (showMessage ''Error loading profile'' s) \<and>
   createUser_resume env NetworkFailure s = Inr (showMessage ''Error creating user'' s) \<and>
   updateUser_resume env NetworkFailure s = Inr (showMessage ''Error updating user'' s) \<and>
   fetchWallet_resume NetworkFailure s = Inr (showMessage ''Error loading wallet'' s) \<and>
   fetchWallet_resume (Reply None) s = Inr (showMessage ''Error loading wallet'' s) \<and>
   transferCredits_resume env NetworkFailure s =
     Inr (showMessage ''Error transferring credits'' s) \<and>
   message (view (showMessage m s)) = m \<and>
   \<not> isl (fetchGenres_resume rg s) \<and> \<not> isl (createGenre_resume env r s) \<and>
   \<not> isl (fetchProfile_resume rp s) \<and> \<not> isl (createUser_resume env r s) \<and>
   \<not> isl (updateUser_resume env r s) \<and> \<not> isl (fetchWallet_resume rw s) \<and>
   \<not> isl (transferCredits_resume env r s) \<and>
   unhandled (run evs init) = []"
proof -
  have caught:
    "fetchGenres_resume NetworkFailure s = Inr (showMessage ''Error loading genres'' s)"
    "fetchGenres_resume (Reply None) s = Inr (showMessage ''Error loading genres'' s)"
    "createGenre_resume env NetworkFailure s = Inr (showMessage ''Error creating genre'' s)"
    "fetchProfile_resume NetworkFailure s = Inr (showMessage ''Error loading profile'' s)"
    "fetchProfile_resume (Reply None) s = Inr (showMessage ''Error loading profile'' s)"
    "createUser_resume env NetworkFailure s = Inr (showMessage ''Error creating user'' s)"
    "updateUser_resume env NetworkFailure s = Inr (showMessage ''Error updating user'' s)"
    "fetchWallet_resume NetworkFailure s = Inr (showMessage ''Error loading wallet'' s)"
    "fetchWallet_resume (Reply None) s = Inr (showMessage ''Error loading wallet'' s)"
    "transferCredits_resume env NetworkFailure s =
       Inr (showMessage ''Error transferring credits'' s)"
    by (simp_all add: fetchGenres_resume_def createGenre_resume_def fetchProfile_resume_def
          createUser_resume_def updateUser_resume_def fetchWallet_resume_def
          transferCredits_resume_def promise_defs)
  have shown: "message (view (showMessage m s)) = m"
    by (simp add: showMessage_def setMessage_def)
  have fulfilled:
    "\<not> isl (fetchGenres_resume rg s)" "\<not> isl (createGenre_resume env r s)"
    "\<not> isl (fetchProfile_resume rp s)" "\<not> isl (createUser_resume env r s)"
    "\<not> isl (updateUser_resume env r s)" "\<not> isl (fetchWallet_resume rw s)"
    "\<not> isl (transferCredits_resume env r s)"
    by (simp_all add: fetchGenres_resume_def createGenre_resume_def fetchProfile_resume_def
          createUser_resume_def updateUser_resume_def fetchWallet_resume_def
          transferCredits_resume_def promise_defs split: reply.splits option.splits)
  have quiet: "unhandled (run evs init) = []"
    by (simp add: run_unhandled init_def)
  from caught shown fulfilled quiet show ?thesis
    by simp
qed

text \<open>
  In a fresh session, an update whose request fails in the network and a read whose
  body is no JSON end with the handler's error text as the message, and with no
  uncaught rejection.
\<close>

theorem handlers_never_reject_witness:
  "message (view (run [Click_updateUser, WriteReply 0 NetworkFailure] init)) =
     ''Error updating user'' \<and>
   message (view (run [Click_fetchWallet, WalletReply 0 (Reply None)] init)) =
     ''Error loading wallet'' \<and>
   message (view (run [Click_fetchGenres, GenresReply 0 NetworkFailure] init)) =
     ''Error loading genres'' \<and>
   message (view (run [Click_fetchProfile, ProfileReply 0 (Reply None)] init)) =
     ''Error loading profile'' \<and>
   \<not> isl (updateUser_resume init_view NetworkFailure init) \<and>
   unhandled (run [Click_updateUser, WriteReply 0 NetworkFailure,
                   Click_fetchWallet, WalletReply 0 (Reply None)] init) = []"
  using handlers_never_reject
          [where s = "fetch (PUT_user ''user:1234'' (user_body init_view)) K_updateUser
                        init_view init\<lparr>inflight := []\<rparr>"
             and env = init_view and r = NetworkFailure]
        handlers_never_reject
          [where s = "init\<lparr>requests := [GET_wallet ''user:1234'']\<rparr>"]
        handlers_never_reject
          [where s = "init\<lparr>requests := [GET_genres]\<rparr>"]
        handlers_never_reject
          [where s = "init\<lparr>requests := [GET_user ''user:1234'']\<rparr>"]
        handlers_never_reject
          [where s = init and env = init_view and r = NetworkFailure
             and evs = "[Click_updateUser, WriteReply 0 NetworkFailure,
                         Click_fetchWallet, WalletReply 0 (Reply None)]"]
  by (simp add: init_def init_view_def set_defs start_defs loop_defs)


end
